theory Spec2Isabelle
  imports Main
begin

section \<open>The lead-capture form of the landing page\<close>

text \<open>
  The page component \<open>Home\<close> exists twice in the repository: \<open>src/app/page.tsx\<close>, whose
  \<open>onSubmit\<close> posts to the mailing-list endpoint, and \<open>src/unnamed/part_000\<close>, whose
  \<open>onSubmit\<close> is a local stub. The validation schema, the default values, the phone
  input's change handler and the selection control are the same text in both files.

  A JavaScript string is modelled as a \<open>string\<close>, one \<open>char\<close> per UTF-16 code unit, for
  code units below 256; \<open>length\<close> is then the \<open>.length\<close> the schema compares.
\<close>

subsection \<open>Form values\<close>

record FormValues =
  email :: string
  phone :: string
  description :: string

text \<open>\<open>useForm({ defaultValues: { email: "", phone: "", description: "" } })\<close>\<close>

definition defaultValues :: FormValues where
  "defaultValues = \<lparr>email = '''', phone = '''', description = ''''\<rparr>"

subsection \<open>Character classes of the two regular expressions\<close>

text \<open>\<open>\d\<close> and \<open>[0-9]\<close>: the ten ASCII digits.\<close>

definition is_digit :: "char \<Rightarrow> bool" where
  "is_digit c = (c \<in> set ''0123456789'')"

text \<open>
  \<open>\s\<close>: tab, line feed, vertical tab, form feed, carriage return, space and the
  no-break space (the white space and line terminators below code unit 256).
\<close>

definition is_space :: "char \<Rightarrow> bool" where
  "is_space c = (c \<in> set [CHR 0x09, CHR 0x0A, CHR 0x0B, CHR 0x0C, CHR 0x0D, CHR '' '', CHR 0xA0])"

text \<open>\<open>[-\s./0-9]\<close>, the class of the tail of the phone grammar.\<close>

definition is_tail_char :: "char \<Rightarrow> bool" where
  "is_tail_char c = (c = CHR ''-'' \<or> is_space c \<or> c = CHR ''.'' \<or> c = CHR ''/'' \<or> is_digit c)"

text \<open>\<open>[^\d+-]\<close> negated: the characters the phone input keeps.\<close>

definition is_phone_char :: "char \<Rightarrow> bool" where
  "is_phone_char c = (is_digit c \<or> c = CHR ''+'' \<or> c = CHR ''-'')"

subsection \<open>A backtracking matcher\<close>

text \<open>
  Each piece of a regular expression maps the text still to be read to the list of the
  texts that can remain after the piece, in the order a backtracking engine tries them
  (greedy: the longest first).
\<close>

type_synonym rx = "string \<Rightarrow> string list"

text \<open>One character of a class.\<close>

fun cls :: "(char \<Rightarrow> bool) \<Rightarrow> rx" where
  "cls p [] = []"
| "cls p (c # cs) = (if p c then [cs] else [])"

text \<open>\<open>r?\<close>: the piece, or else nothing.\<close>

definition opt :: "rx \<Rightarrow> rx" where
  "opt r s = r s @ [s]"

text \<open>\<open>r1 r2\<close>: the second piece on every remainder of the first.\<close>

definition seq :: "rx \<Rightarrow> rx \<Rightarrow> rx" where
  "seq r1 r2 s = concat (map r2 (r1 s))"

text \<open>\<open>[class]{0,n}\<close>: at most \<open>n\<close> characters of a class.\<close>

fun at_most :: "nat \<Rightarrow> (char \<Rightarrow> bool) \<Rightarrow> rx" where
  "at_most 0 p s = [s]"
| "at_most (Suc n) p [] = [[]]"
| "at_most (Suc n) p (c # cs) = (if p c then at_most n p cs @ [c # cs] else [c # cs])"

text \<open>\<open>[class]*\<close>: any number of characters of a class.\<close>

fun star :: "(char \<Rightarrow> bool) \<Rightarrow> rx" where
  "star p [] = [[]]"
| "star p (c # cs) = (if p c then star p cs @ [c # cs] else [c # cs])"

text \<open>
  \<open>/^ ... $/.test(s)\<close> with no flags: the match starts at the first character and some
  way of reading the pieces leaves nothing.
\<close>

definition test_anchored :: "rx \<Rightarrow> string \<Rightarrow> bool" where
  "test_anchored r s = ([] \<in> set (r s))"

text \<open>\<open>/^[+]?[(]?[0-9]{1,4}[)]?[-\s./0-9]*$/\<close>\<close>

definition phone_regex :: rx where
  "phone_regex =
     seq (opt (cls (\<lambda>c. c = CHR ''+'')))
    (seq (opt (cls (\<lambda>c. c = CHR ''('')))
    (seq (cls is_digit)
    (seq (at_most 3 is_digit)
    (seq (opt (cls (\<lambda>c. c = CHR '')'')))
         (star is_tail_char)))))"

subsection \<open>The validation schema\<close>

text \<open>
  \<open>formSchema\<close> is a zod object schema. A zod string schema runs all of its checks in the
  order they were chained and reports one issue, with the check's message, for each
  check that fails.
\<close>

datatype field_name = Email | Phone | Description

type_synonym issue = "field_name \<times> string"

definition email_message :: string where
  "email_message = ''Please enter a valid email address.''"

definition phone_min_message :: string where
  "phone_min_message = ''Phone number must be at least 10 digits''"

definition phone_max_message :: string where
  "phone_max_message = ''Phone number must be at most 15 digits''"

definition phone_regex_message :: string where
  "phone_regex_message = ''Please enter a valid phone number''"

definition description_message :: string where
  "description_message = ''Please select what best describes you''"

text \<open>
  \<open>z.string().email({message})\<close>. The grammar of \<open>.email()\<close> belongs to the zod library,
  which is not part of the repository: it is the parameter \<open>is_email\<close>.
\<close>

definition email_issues :: "(string \<Rightarrow> bool) \<Rightarrow> string \<Rightarrow> string list" where
  "email_issues is_email s = (if is_email s then [] else [email_message])"

text \<open>\<open>z.string().min(10, ...).max(15, ...).regex(..., ...)\<close>\<close>

definition phone_issues :: "string \<Rightarrow> string list" where
  "phone_issues s =
     (if length s < 10 then [phone_min_message] else []) @
     (if length s > 15 then [phone_max_message] else []) @
     (if test_anchored phone_regex s then [] else [phone_regex_message])"

text \<open>\<open>z.string().min(1, ...)\<close>\<close>

definition description_issues :: "string \<Rightarrow> string list" where
  "description_issues s = (if length s < 1 then [description_message] else [])"

text \<open>\<open>z.object({email, phone, description})\<close>: the issues of the three fields, in key order.\<close>

definition formSchema :: "(string \<Rightarrow> bool) \<Rightarrow> FormValues \<Rightarrow> issue list" where
  "formSchema is_email v =
     map (Pair Email) (email_issues is_email (email v)) @
     map (Pair Phone) (phone_issues (phone v)) @
     map (Pair Description) (description_issues (description v))"

text \<open>
  \<open>zodResolver(formSchema)\<close> shows, under each field, the message of the first issue
  reported for it.
\<close>

definition field_error :: "issue list \<Rightarrow> field_name \<Rightarrow> string option" where
  "field_error iss f = map_option snd (List.find (\<lambda>i. fst i = f) iss)"

subsection \<open>The controls of the form\<close>

text \<open>
  The phone input's \<open>onChange\<close>: \<open>e.target.value.replace(/[^\d+-]/g, "")\<close> deletes every
  character outside the class and hands the rest to \<open>field.onChange\<close>.
\<close>

definition phone_onChange :: "string \<Rightarrow> string" where
  "phone_onChange t = filter is_phone_char t"

text \<open>The three \<open>SelectItem\<close>s of \<open>SelectContent\<close> and the \<open>value\<close> each one carries.\<close>

datatype select_item = Owner | Seeker | Both

fun item_value :: "select_item \<Rightarrow> string" where
  "item_value Owner = ''I own a space to share''"
| "item_value Seeker = ''I am hunting for the perfect space''"
| "item_value Both = ''Both! I own and I am looking ''"

text \<open>The object both \<open>onSubmit\<close>s pass to \<open>form.reset\<close>.\<close>

definition reset_values :: FormValues where
  "reset_values = \<lparr>email = '''', phone = '''', description = ''Select''\<rparr>"

subsection \<open>The environment and the endpoint's answers\<close>

text \<open>What \<open>process.env\<close> yields for the two names the component reads; \<open>None\<close> is \<open>undefined\<close>.\<close>

record env =
  ZOHO_OAUTH_TOKEN :: "string option"
  NEXT_PUBLIC_ZOHO_LIST_KEY :: "string option"

text \<open>
  A property read off the response body: a string, \<open>undefined\<close>, \<open>null\<close>, or any other
  value, given by its truthiness and by the text \<open>String(v)\<close> makes of it.
\<close>

datatype js_value = Undefined | Null | Str string | Other bool string

fun truthy :: "js_value \<Rightarrow> bool" where
  "truthy Undefined = False"
| "truthy Null = False"
| "truthy (Str s) = (s \<noteq> [])"
| "truthy (Other b t) = b"

fun to_text :: "js_value \<Rightarrow> string" where
  "to_text Undefined = ''undefined''"
| "to_text Null = ''null''"
| "to_text (Str s) = s"
| "to_text (Other b t) = t"

text \<open>
  \<open>await response.json()\<close>: it rejects (the body is not JSON), or yields \<open>null\<close>, or yields
  a value whose \<open>status\<close> and \<open>message\<close> properties are the two arguments.
\<close>

datatype json_outcome = JsonRejects string | JsonNull | JsonValue js_value js_value

text \<open>\<open>await fetch(...)\<close>: it rejects, or yields a response with its \<open>ok\<close> flag and body.\<close>

datatype fetch_outcome = FetchRejects string | Responds bool json_outcome

text \<open>The message of the TypeError raised by reading a property of \<open>null\<close> (V8's wording).\<close>

definition null_read_message :: "string \<Rightarrow> string" where
  "null_read_message p = ''Cannot read properties of null (reading '' @ [CHR 0x27] @ p @ [CHR 0x27] @ '')''"

subsection \<open>The outbound request\<close>

text \<open>
  A query parameter is a text, or the contact record handed to
  \<open>encodeURIComponent(JSON.stringify(...))\<close>; the serialised text is not modelled, the
  record is kept as the list of its keys and values in insertion order.
\<close>

datatype param = Text string | ContactInfo "(string \<times> string) list"

record request =
  endpoint :: string
  params :: "(string \<times> param) list"
  http_method :: string
  headers :: "(string \<times> string) list"
  cors_mode :: string

text \<open>
  \<open>{"Contact Email": values.email, ...(values.phone && {"Phone": values.phone}),
  ...(values.description !== "Select" && {"Description": values.description})}\<close>
\<close>

definition contactInfo :: "FormValues \<Rightarrow> (string \<times> string) list" where
  "contactInfo values =
     [(''Contact Email'', email values)] @
     (if phone values \<noteq> [] then [(''Phone'', phone values)] else []) @
     (if description values \<noteq> ''Select'' then [(''Description'', description values)] else [])"

text \<open>A template literal \<open>`${x}`\<close> of a value that may be \<open>undefined\<close>.\<close>

definition template :: "string option \<Rightarrow> string" where
  "template x = (case x of None \<Rightarrow> ''undefined'' | Some s \<Rightarrow> s)"

text \<open>
  \<open>{'Content-Type': 'application/json', ...(process.env.ZOHO_OAUTH_TOKEN &&
  {'Authorization': `Zoho-oauthtoken ${process.env.ZOHO_OAUTH_TOKEN}`})}\<close>: the spread
  adds the header when the token is truthy, that is defined and not empty.
\<close>

definition request_headers :: "env \<Rightarrow> (string \<times> string) list" where
  "request_headers e =
     [(''Content-Type'', ''application/json'')] @
     (case ZOHO_OAUTH_TOKEN e of
        None \<Rightarrow> []
      | Some t \<Rightarrow> if t \<noteq> [] then [(''Authorization'', ''Zoho-oauthtoken '' @ t)] else [])"

definition build_request :: "env \<Rightarrow> FormValues \<Rightarrow> request" where
  "build_request e values =
     \<lparr>endpoint = ''https://campaigns.zoho.com/api/v1.1/json/listsubscribe'',
      params = [(''resfmt'', Text ''JSON''),
                (''listkey'', Text (template (NEXT_PUBLIC_ZOHO_LIST_KEY e))),
                (''contactinfo'', ContactInfo (contactInfo values)),
                (''source'', Text ''WebsiteForm'')],
      http_method = ''POST'',
      headers = request_headers e,
      cors_mode = ''cors''\<rparr>"

subsection \<open>The page and its submission handlers\<close>

text \<open>
  The two \<open>useState\<close> flags, the current values of the form, and what the page has done
  so far: the texts it has shown with \<open>alert\<close> and the requests it has issued. Console
  output is left out.
\<close>

record page =
  loading :: bool
  showSuccess :: bool
  form :: FormValues
  alerts :: "string list"
  requests :: "request list"

definition initial_page :: page where
  "initial_page =
     \<lparr>loading = False, showSuccess = False, form = defaultValues, alerts = [], requests = []\<rparr>"

text \<open>
  The \<open>try\<close> block of \<open>onSubmit\<close> in \<open>src/app/page.tsx\<close>, run to its end with the endpoint's
  answer given: the page it leaves, and the message of the error it threw, if any.
  \<open>responseData.message || 'Subscription failed'\<close> falls back when the message is falsy;
  with a \<open>null\<close> body the first property read throws.
\<close>

definition onSubmit_try :: "env \<Rightarrow> fetch_outcome \<Rightarrow> FormValues \<Rightarrow> page \<Rightarrow> page \<times> string option" where
  "onSubmit_try e out values s =
     (let s1 = s\<lparr>loading := True\<rparr>;
          s2 = s1\<lparr>requests := requests s1 @ [build_request e values]\<rparr>
      in case out of
           FetchRejects m \<Rightarrow> (s2, Some m)
         | Responds ok (JsonRejects m) \<Rightarrow> (s2, Some m)
         | Responds ok JsonNull \<Rightarrow>
             (s2, Some (null_read_message (if \<not> ok then ''message'' else ''status'')))
         | Responds ok (JsonValue st msg) \<Rightarrow>
             if \<not> ok \<or> st = Str ''error''
             then (s2, Some (if truthy msg then to_text msg else ''Subscription failed''))
             else (s2\<lparr>showSuccess := True, form := reset_values\<rparr>, None))"

text \<open>
  \<open>catch (error) { alert(`Subscription failed: ${error.message}`) }
  finally { setLoading(false) }\<close>
\<close>

definition onSubmit :: "env \<Rightarrow> fetch_outcome \<Rightarrow> FormValues \<Rightarrow> page \<Rightarrow> page" where
  "onSubmit e out values s =
     (case onSubmit_try e out values s of
        (s', None) \<Rightarrow> s'\<lparr>loading := False\<rparr>
      | (s', Some m) \<Rightarrow> s'\<lparr>alerts := alerts s' @ [''Subscription failed: '' @ m], loading := False\<rparr>)"

text \<open>
  \<open>onSubmit\<close> of \<open>src/unnamed/part_000\<close>: \<open>setShowSuccess(true); setLoading(true);
  form.reset({...})\<close>, and nothing else.
\<close>

definition onSubmit_stub :: "FormValues \<Rightarrow> page \<Rightarrow> page" where
  "onSubmit_stub values s = s\<lparr>showSuccess := True, loading := True, form := reset_values\<rparr>"

text \<open>
  \<open>form.handleSubmit(onSubmit)\<close>: the resolver validates the current values, and the
  handler runs on them only when there is no issue.
\<close>

definition handleSubmit ::
  "(string \<Rightarrow> bool) \<Rightarrow> (FormValues \<Rightarrow> page \<Rightarrow> page) \<Rightarrow> page \<Rightarrow> page" where
  "handleSubmit is_email handler s =
     (if formSchema is_email (form s) = [] then handler (form s) s else s)"

text \<open>
  What the user can do: change the text of the email or of the phone input, pick an item
  of the selection control, or submit (the endpoint's answer to the request, if one is
  made, is part of the event). The submit button is \<open>disabled={loading}\<close>, so no submit
  event reaches the form while \<open>loading\<close> holds.
\<close>

datatype event = TypeEmail string | TypePhone string | Pick select_item | Submit fetch_outcome

fun change :: "event \<Rightarrow> FormValues \<Rightarrow> FormValues" where
  "change (TypeEmail t) v = v\<lparr>email := t\<rparr>"
| "change (TypePhone t) v = v\<lparr>phone := phone_onChange t\<rparr>"
| "change (Pick i) v = v\<lparr>description := item_value i\<rparr>"
| "change (Submit out) v = v"

text \<open>The page of \<open>src/app/page.tsx\<close>.\<close>

fun step :: "(string \<Rightarrow> bool) \<Rightarrow> env \<Rightarrow> page \<Rightarrow> event \<Rightarrow> page" where
  "step is_email e s (Submit out) =
     (if loading s then s else handleSubmit is_email (onSubmit e out) s)"
| "step is_email e s ev = s\<lparr>form := change ev (form s)\<rparr>"

text \<open>The page of \<open>src/unnamed/part_000\<close>.\<close>

fun stub_step :: "(string \<Rightarrow> bool) \<Rightarrow> page \<Rightarrow> event \<Rightarrow> page" where
  "stub_step is_email s (Submit out) =
     (if loading s then s else handleSubmit is_email onSubmit_stub s)"
| "stub_step is_email s ev = s\<lparr>form := change ev (form s)\<rparr>"

section \<open>Properties of the validation schema\<close>

subsection \<open>The phone grammar\<close>

lemma seq_end: "([] \<in> set (seq r1 r2 s)) = (\<exists>m \<in> set (r1 s). [] \<in> set (r2 m))"
  by (auto simp: seq_def)

lemma at_most_self: "s \<in> set (at_most n p s)"
  by (cases n; cases s) auto

lemma star_end: "list_all p s \<Longrightarrow> [] \<in> set (star p s)"
  by (induction s) auto

text \<open>One digit followed by characters of the tail class is read with nothing left.\<close>

lemma digit_then_tail_match:
  assumes d: "is_digit d" and ds: "list_all is_tail_char ds"
  shows "test_anchored phone_regex (d # ds)"
proof -
  from d have np: "d \<noteq> CHR ''+''" and nq: "d \<noteq> CHR ''(''"
    by (auto simp: is_digit_def)
  from ds have tail: "[] \<in> set (star is_tail_char ds)"
    by (rule star_end)
  have "[] \<in> set (seq (at_most 3 is_digit) (seq (opt (cls (\<lambda>c. c = CHR '')''))) (star is_tail_char)) ds)"
    unfolding seq_end [of "at_most 3 is_digit"]
  proof (rule bexI [OF _ at_most_self])
    show "[] \<in> set (seq (opt (cls (\<lambda>c. c = CHR '')''))) (star is_tail_char) ds)"
      using tail by (simp add: seq_end opt_def)
  qed
  then show ?thesis
    using d np nq
    by (simp add: test_anchored_def phone_regex_def seq_end [of "opt _"] seq_end [of "cls _"] opt_def)
qed

lemma digits_match:
  assumes "list_all is_digit s" "s \<noteq> []"
  shows "test_anchored phone_regex s"
proof -
  from assms obtain d ds where s: "s = d # ds" and d: "is_digit d" and ds: "list_all is_digit ds"
    by (cases s) auto
  from ds have "list_all is_tail_char ds"
    by (induction ds) (auto simp: is_tail_char_def)
  with d show ?thesis
    unfolding s by (rule digit_then_tail_match)
qed

subsection \<open>The message shown under the phone field\<close>

lemma field_error_phone:
  "field_error (formSchema is_email v) Phone =
     (case phone_issues (phone v) of [] \<Rightarrow> None | m # ms \<Rightarrow> Some m)"
  by (cases "phone_issues (phone v)")
     (simp_all add: field_error_def formSchema_def email_issues_def description_issues_def
        split: option.splits)

lemma messages_distinct:
  "phone_min_message \<noteq> phone_max_message"
  "phone_regex_message \<noteq> phone_min_message"
  "phone_regex_message \<noteq> phone_max_message"
  by (simp_all add: phone_min_message_def phone_max_message_def phone_regex_message_def)

text \<open>
  Claim C7. A string of digits shorter than 10 characters fails phone validation with the
  too-short message, which is the message shown under the field; a string of digits longer
  than 15 characters fails with the too-long message and with nothing else; a text the
  grammar rejects is reported with a third message; the three messages differ.
\<close>

theorem phone_length_messages:
  assumes "list_all is_digit s"
  shows "(length s < 10 \<longrightarrow>
            phone_min_message \<in> set (phone_issues s) \<and>
            field_error (formSchema is_email \<lparr>email = e, phone = s, description = d\<rparr>) Phone
              = Some phone_min_message) \<and>
         (length s > 15 \<longrightarrow>
            phone_issues s = [phone_max_message] \<and>
            field_error (formSchema is_email \<lparr>email = e, phone = s, description = d\<rparr>) Phone
              = Some phone_max_message) \<and>
         (\<not> test_anchored phone_regex t \<longrightarrow> phone_regex_message \<in> set (phone_issues t)) \<and>
         phone_min_message \<noteq> phone_max_message \<and>
         phone_regex_message \<noteq> phone_min_message \<and>
         phone_regex_message \<noteq> phone_max_message"
proof -
  have short: "phone_min_message \<in> set (phone_issues s) \<and> (\<exists>ms. phone_issues s = phone_min_message # ms)"
    if "length s < 10"
    using that by (simp add: phone_issues_def)
  have long: "phone_issues s = [phone_max_message]" if "length s > 15"
  proof -
    from that have "s \<noteq> []" by auto
    with assms have "test_anchored phone_regex s" by (rule digits_match)
    with that show ?thesis by (simp add: phone_issues_def)
  qed
  have bad: "phone_regex_message \<in> set (phone_issues t)" if "\<not> test_anchored phone_regex t"
    using that by (simp add: phone_issues_def)
  show ?thesis
    using short long bad messages_distinct by (auto simp: field_error_phone)
qed

theorem phone_length_messages_witness:
  "list_all is_digit ''12345'' \<and> length ''12345'' < 10 \<and>
   field_error (formSchema (\<lambda>x. True) \<lparr>email = ''a@b.com'', phone = ''12345'', description = ''''\<rparr>) Phone
     = Some ''Phone number must be at least 10 digits'' \<and>
   list_all is_digit ''1234567890123456'' \<and> length ''1234567890123456'' > 15 \<and>
   phone_issues ''1234567890123456'' = [''Phone number must be at most 15 digits''] \<and>
   \<not> test_anchored phone_regex ''12345)67890'' \<and>
   ''Please enter a valid phone number'' \<in> set (phone_issues ''12345)67890'')"
proof -
  have a: "list_all is_digit ''12345''" and b: "list_all is_digit ''1234567890123456''"
    by (simp_all add: is_digit_def)
  have c: "\<not> test_anchored phone_regex ''12345)67890''"
    by (simp add: test_anchored_def phone_regex_def seq_def opt_def is_digit_def
          is_tail_char_def is_space_def numeral_3_eq_3)
  show ?thesis
    using a b c
      phone_length_messages [OF a, of "\<lambda>x. True" "''a@b.com''" "''''" "''12345)67890''"]
      phone_length_messages [OF b, of "\<lambda>x. True" "''a@b.com''" "''''" "''12345)67890''"]
    by (simp add: phone_min_message_def phone_max_message_def phone_regex_message_def)
qed

text \<open>
  Claim C10. The text \<open>123-456-78\<close> is stored as typed, has 10 characters of which 8 are
  digits, and passes phone validation: the length bounds count every character, and the
  grammar reads one digit followed by any number of hyphens, so that a stored value with
  a single digit passes as well.
\<close>

theorem phone_valid_with_few_digits:
  "phone_onChange ''123-456-78'' = ''123-456-78'' \<and>
   length ''123-456-78'' = 10 \<and>
   length (filter is_digit ''123-456-78'') = 8 \<and>
   phone_issues ''123-456-78'' = [] \<and>
   test_anchored phone_regex (CHR ''1'' # replicate n (CHR ''-'')) \<and>
   phone_onChange (CHR ''1'' # replicate 9 (CHR ''-'')) = CHR ''1'' # replicate 9 (CHR ''-'') \<and>
   phone_issues (CHR ''1'' # replicate 9 (CHR ''-'')) = []"
proof -
  have tails: "list_all is_tail_char (replicate k (CHR ''-''))" for k
    by (induction k) (simp_all add: is_tail_char_def)
  have one: "is_digit (CHR ''1'')"
    by (simp add: is_digit_def)
  have fam: "test_anchored phone_regex (CHR ''1'' # replicate k (CHR ''-''))" for k
    using one tails by (rule digit_then_tail_match)
  have ex: "test_anchored phone_regex ''123-456-78''"
    by (simp add: test_anchored_def phone_regex_def seq_def opt_def is_digit_def
          is_tail_char_def is_space_def numeral_3_eq_3)
  have "phone_issues ''123-456-78'' = []"
    using ex by (simp add: phone_issues_def)
  moreover have "phone_issues (CHR ''1'' # replicate 9 (CHR ''-'')) = []"
    using fam [of 9] by (simp add: phone_issues_def)
  moreover have "phone_onChange ''123-456-78'' = ''123-456-78''"
    by (simp add: phone_onChange_def is_phone_char_def is_digit_def)
  moreover have "phone_onChange (CHR ''1'' # replicate 9 (CHR ''-'')) = CHR ''1'' # replicate 9 (CHR ''-'')"
    by (simp add: phone_onChange_def is_phone_char_def is_digit_def)
  moreover have "length (filter is_digit ''123-456-78'') = 8"
    by (simp add: is_digit_def)
  ultimately show ?thesis
    using fam by simp
qed

subsection \<open>The description field\<close>

text \<open>
  Claim C4, as the spec states it, makes the three item values the only valid
  descriptions. The schema accepts \<open>Select\<close>, which is none of them.
\<close>

theorem description_outside_items_valid:
  "description_issues ''Select'' = [] \<and> ''Select'' \<notin> set (map item_value [Owner, Seeker, Both])"
  by (simp add: description_issues_def)

text \<open>
  Claim C4, amended. A description passes validation exactly when it is not the empty
  string: each of the three item values passes, the empty string fails with the
  description message, and no other string is rejected.
\<close>

theorem description_valid_iff_nonempty:
  "(description_issues d = []) = (d \<noteq> []) \<and>
   description_issues (item_value i) = [] \<and>
   description_issues [] = [description_message] \<and>
   (field_error (formSchema is_email v) Description = None) = (description v \<noteq> [])"
  by (cases i)
     (auto simp: description_issues_def field_error_def formSchema_def email_issues_def
        phone_issues_def)

section \<open>Properties of the phone input\<close>

text \<open>
  Claim C3, as the spec states it, has hyphens stripped and the stored value made of
  digits with at most a leading plus sign. The text \<open>555-1234\<close> is stored unchanged.
\<close>

theorem phone_input_keeps_hyphens:
  "phone_onChange ''555-1234'' = ''555-1234'' \<and>
   \<not> (list_all is_digit ''555-1234'' \<or> (\<exists>r. ''555-1234'' = CHR ''+'' # r \<and> list_all is_digit r))"
  by (simp add: phone_onChange_def is_phone_char_def is_digit_def)

text \<open>
  Claim C3, amended. The phone value stored in the form is the typed text with every
  character other than a digit, a plus sign or a hyphen removed, and nothing else
  changed: every digit is kept, in the order typed; the stored value consists of digits,
  plus signs and hyphens only; spaces, parentheses and dots are gone; a hyphen and a plus
  sign are kept wherever they stand.
\<close>

theorem phone_input_kept_characters:
  "phone (form (step is_email e s (TypePhone t))) = phone_onChange t \<and>
   phone_onChange t = filter (\<lambda>c. is_digit c \<or> c = CHR ''+'' \<or> c = CHR ''-'') t \<and>
   filter is_digit (phone_onChange t) = filter is_digit t \<and>
   phone_onChange ''09054368324'' = ''09054368324'' \<and>
   phone_onChange ''+1 (555) 123-4567'' = ''+1555123-4567'' \<and>
   list_all (\<lambda>c. is_digit c \<or> c = CHR ''+'' \<or> c = CHR ''-'') (phone_onChange t) \<and>
   CHR '' '' \<notin> set (phone_onChange t) \<and>
   CHR ''('' \<notin> set (phone_onChange t) \<and>
   CHR '')'' \<notin> set (phone_onChange t) \<and>
   CHR ''.'' \<notin> set (phone_onChange t) \<and>
   phone_onChange (a @ CHR ''-'' # b) = phone_onChange a @ CHR ''-'' # phone_onChange b \<and>
   phone_onChange (a @ CHR ''+'' # b) = phone_onChange a @ CHR ''+'' # phone_onChange b"
proof -
  have cls_eq: "is_phone_char = (\<lambda>c. is_digit c \<or> c = CHR ''+'' \<or> c = CHR ''-'')"
    by (rule ext) (simp add: is_phone_char_def)
  have stored: "phone (form (step is_email e s (TypePhone t))) = phone_onChange t"
    by simp
  have filt: "phone_onChange t = filter (\<lambda>c. is_digit c \<or> c = CHR ''+'' \<or> c = CHR ''-'') t"
    using cls_eq by (simp add: phone_onChange_def)
  have "(is_phone_char c \<and> is_digit c) = is_digit c" for c
    by (auto simp: is_phone_char_def)
  then have digits: "filter is_digit (phone_onChange t) = filter is_digit t"
    by (simp add: phone_onChange_def conj_commute)
  have ex1: "phone_onChange ''09054368324'' = ''09054368324''"
    by (simp add: phone_onChange_def is_phone_char_def is_digit_def)
  have ex2: "phone_onChange ''+1 (555) 123-4567'' = ''+1555123-4567''"
    by (simp add: phone_onChange_def is_phone_char_def is_digit_def)
  have kept: "list_all (\<lambda>c. is_digit c \<or> c = CHR ''+'' \<or> c = CHR ''-'') (phone_onChange t)"
    by (simp add: phone_onChange_def is_phone_char_def list_all_iff)
  have gone: "c \<notin> set (phone_onChange t)" if "\<not> is_phone_char c" for c
    using that by (simp add: phone_onChange_def)
  have no: "\<not> is_phone_char (CHR '' '')" "\<not> is_phone_char (CHR ''('')"
    "\<not> is_phone_char (CHR '')'')" "\<not> is_phone_char (CHR ''.'')"
    by (simp_all add: is_phone_char_def is_digit_def)
  have yes: "is_phone_char (CHR ''-'')" "is_phone_char (CHR ''+'')"
    by (simp_all add: is_phone_char_def)
  have hyphen: "phone_onChange (a @ CHR ''-'' # b) = phone_onChange a @ CHR ''-'' # phone_onChange b"
    using yes by (simp add: phone_onChange_def)
  have plus: "phone_onChange (a @ CHR ''+'' # b) = phone_onChange a @ CHR ''+'' # phone_onChange b"
    using yes by (simp add: phone_onChange_def)
  from stored filt digits ex1 ex2 kept gone [OF no(1)] gone [OF no(2)] gone [OF no(3)]
    gone [OF no(4)] hyphen plus
  show ?thesis by blast
qed

section \<open>Properties of the submission handlers\<close>

subsection \<open>A successful submission\<close>

lemma onSubmit_success:
  assumes "st \<noteq> Str ''error''"
  shows "onSubmit e (Responds True (JsonValue st m)) v s =
           s\<lparr>loading := False, showSuccess := True, form := reset_values,
             requests := requests s @ [build_request e v]\<rparr>"
  using assms by (simp add: onSubmit_def onSubmit_try_def)

text \<open>
  Claim C1, on the code. When the endpoint answers with an OK status and a body whose
  status is not \<open>error\<close>, \<open>onSubmit\<close> issues one request, shows the success notice, ends
  with \<open>loading\<close> false and resets the email and the phone to the values the form was
  created with; the description becomes \<open>Select\<close>, which is not the value the form was
  created with.
\<close>

theorem success_resets_description_to_Select:
  assumes "st \<noteq> Str ''error''"
    and "s' = onSubmit e (Responds True (JsonValue st m)) v s"
  shows "showSuccess s' \<and> \<not> loading s' \<and>
         email (form s') = email defaultValues \<and>
         phone (form s') = phone defaultValues \<and>
         description (form s') = ''Select'' \<and>
         description (form s') \<noteq> description defaultValues \<and>
         requests s' = requests s @ [build_request e v] \<and>
         alerts s' = alerts s"
  using assms by (simp add: onSubmit_success reset_values_def defaultValues_def)

theorem success_resets_description_to_Select_witness:
  "description (form (onSubmit \<lparr>ZOHO_OAUTH_TOKEN = None, NEXT_PUBLIC_ZOHO_LIST_KEY = Some ''key''\<rparr>
       (Responds True (JsonValue (Str ''success'') Undefined))
       \<lparr>email = ''a@b.com'', phone = ''1234567890'', description = ''I own a space to share''\<rparr>
       initial_page)) = ''Select'' \<and>
   description (form initial_page) = ''''"
  using success_resets_description_to_Select
      [of "Str ''success''" _ "\<lparr>ZOHO_OAUTH_TOKEN = None, NEXT_PUBLIC_ZOHO_LIST_KEY = Some ''key''\<rparr>"
        Undefined
        "\<lparr>email = ''a@b.com'', phone = ''1234567890'', description = ''I own a space to share''\<rparr>"
        initial_page, OF _ refl]
  by (simp add: initial_page_def defaultValues_def)

subsection \<open>Submitting without a selection\<close>

lemma sample_phone_ok: "phone_issues ''1234567890'' = []"
  by (simp add: phone_issues_def test_anchored_def phone_regex_def seq_def opt_def is_digit_def
        is_tail_char_def is_space_def numeral_3_eq_3)

text \<open>
  Claim C2, on the code. With the description the form is created with, the empty string,
  validation reports the description message and the handler is not run. The description
  a successful submission leaves, \<open>Select\<close>, raises no issue: after one accepted
  submission, typing the email and the phone again and submitting with no selection runs
  \<open>onSubmit\<close> a second time.
\<close>

theorem reset_placeholder_passes_validation:
  "description_issues (description (form initial_page)) = [description_message] \<and>
   handleSubmit is_email h (s\<lparr>form := v\<lparr>description := ''''\<rparr>\<rparr>) = s\<lparr>form := v\<lparr>description := ''''\<rparr>\<rparr> \<and>
   description_issues (description reset_values) = [] \<and>
   length (requests (foldl (step is_email e) initial_page
     [TypeEmail ''a@b.com'', TypePhone ''1234567890'', Pick Owner,
      Submit (Responds True (JsonValue (Str ''success'') Undefined)),
      TypeEmail ''a@b.com'', TypePhone ''1234567890'',
      Submit (Responds True (JsonValue (Str ''success'') Undefined))]))
     = (if is_email ''a@b.com'' then 2 else 0)"
proof -
  have typed: "phone_onChange ''1234567890'' = ''1234567890''"
    by (simp add: phone_onChange_def is_phone_char_def is_digit_def)
  have a: "description_issues (description (form initial_page)) = [description_message]"
    by (simp add: initial_page_def defaultValues_def description_issues_def)
  have b: "handleSubmit is_email h (s\<lparr>form := v\<lparr>description := ''''\<rparr>\<rparr>) = s\<lparr>form := v\<lparr>description := ''''\<rparr>\<rparr>"
    by (simp add: handleSubmit_def formSchema_def description_issues_def)
  have c: "description_issues (description reset_values) = []"
    by (simp add: reset_values_def description_issues_def)
  have d: "length (requests (foldl (step is_email e) initial_page
     [TypeEmail ''a@b.com'', TypePhone ''1234567890'', Pick Owner,
      Submit (Responds True (JsonValue (Str ''success'') Undefined)),
      TypeEmail ''a@b.com'', TypePhone ''1234567890'',
      Submit (Responds True (JsonValue (Str ''success'') Undefined))]))
     = (if is_email ''a@b.com'' then 2 else 0)"
    by (simp add: initial_page_def defaultValues_def reset_values_def handleSubmit_def
          formSchema_def email_issues_def description_issues_def sample_phone_ok typed
          onSubmit_def onSubmit_try_def)
  from a b c d show ?thesis by blast
qed

subsection \<open>A failed submission\<close>

text \<open>
  Claim C6. When the endpoint answers with a status that is not OK, whatever the body,
  or with an OK status and a body whose status is \<open>error\<close>, \<open>onSubmit\<close> shows one alert
  that starts with \<open>Subscription failed: \<close>, leaves the three fields and the success
  notice as they were, and ends with \<open>loading\<close> false.
\<close>

theorem failure_alerts_and_keeps_fields:
  assumes "out = Responds False j \<or> out = Responds True (JsonValue (Str ''error'') m)"
    and "s' = onSubmit e out v s"
  shows "(\<exists>t. alerts s' = alerts s @ [''Subscription failed: '' @ t]) \<and>
         form s' = form s \<and> showSuccess s' = showSuccess s \<and> \<not> loading s'"
  using assms
  by (auto simp: onSubmit_def onSubmit_try_def Let_def split: json_outcome.splits)

theorem failure_alerts_and_keeps_fields_witness:
  "alerts (onSubmit \<lparr>ZOHO_OAUTH_TOKEN = None, NEXT_PUBLIC_ZOHO_LIST_KEY = Some ''key''\<rparr>
       (Responds False (JsonValue Undefined (Str ''Unauthorized'')))
       \<lparr>email = ''a@b.com'', phone = ''1234567890'', description = ''I own a space to share''\<rparr>
       (initial_page\<lparr>form := \<lparr>email = ''a@b.com'', phone = ''1234567890'', description = ''I own a space to share''\<rparr>\<rparr>))
     = [''Subscription failed: Unauthorized''] \<and>
   form (onSubmit \<lparr>ZOHO_OAUTH_TOKEN = None, NEXT_PUBLIC_ZOHO_LIST_KEY = Some ''key''\<rparr>
       (Responds True (JsonValue (Str ''error'') Undefined))
       \<lparr>email = ''a@b.com'', phone = ''1234567890'', description = ''I own a space to share''\<rparr>
       (initial_page\<lparr>form := \<lparr>email = ''a@b.com'', phone = ''1234567890'', description = ''I own a space to share''\<rparr>\<rparr>))
     = \<lparr>email = ''a@b.com'', phone = ''1234567890'', description = ''I own a space to share''\<rparr>"
  using
    failure_alerts_and_keeps_fields
      [of "Responds False (JsonValue Undefined (Str ''Unauthorized''))"
        "JsonValue Undefined (Str ''Unauthorized'')" Undefined _
        "\<lparr>ZOHO_OAUTH_TOKEN = None, NEXT_PUBLIC_ZOHO_LIST_KEY = Some ''key''\<rparr>"
        "\<lparr>email = ''a@b.com'', phone = ''1234567890'', description = ''I own a space to share''\<rparr>"
        "initial_page\<lparr>form := \<lparr>email = ''a@b.com'', phone = ''1234567890'', description = ''I own a space to share''\<rparr>\<rparr>",
        OF _ refl]
    failure_alerts_and_keeps_fields
      [of "Responds True (JsonValue (Str ''error'') Undefined)"
        JsonNull Undefined _
        "\<lparr>ZOHO_OAUTH_TOKEN = None, NEXT_PUBLIC_ZOHO_LIST_KEY = Some ''key''\<rparr>"
        "\<lparr>email = ''a@b.com'', phone = ''1234567890'', description = ''I own a space to share''\<rparr>"
        "initial_page\<lparr>form := \<lparr>email = ''a@b.com'', phone = ''1234567890'', description = ''I own a space to share''\<rparr>\<rparr>",
        OF _ refl]
  by (simp add: onSubmit_def onSubmit_try_def initial_page_def)

subsection \<open>The loading flag\<close>

text \<open>
  Claim C5, on the code. \<open>onSubmit\<close> of \<open>src/app/page.tsx\<close> ends with \<open>loading\<close> false
  whatever the endpoint answers; \<open>onSubmit\<close> of \<open>src/unnamed/part_000\<close> ends with
  \<open>loading\<close> true.
\<close>

theorem loading_after_submission:
  "\<not> loading (onSubmit e out v s) \<and> loading (onSubmit_stub v s)"
  by (simp add: onSubmit_def onSubmit_stub_def split: prod.splits option.splits)

lemma stub_loading_kept: "loading s \<Longrightarrow> loading (foldl (stub_step is_email) s evs)"
proof (induction evs arbitrary: s)
  case Nil
  then show ?case by simp
next
  case (Cons ev evs)
  from Cons.prems have "loading (stub_step is_email s ev)"
    by (cases ev) simp_all
  then show ?case
    by (simp add: Cons.IH)
qed

text \<open>
  Claim C9. In the page of \<open>src/unnamed/part_000\<close>, once \<open>onSubmit\<close> has run, \<open>loading\<close>
  is true and stays true whatever the user does next, and a later submit event changes
  nothing: the submit button stays disabled.
\<close>

theorem stub_loading_stays_true:
  "loading (onSubmit_stub v s) \<and>
   loading (foldl (stub_step is_email) (onSubmit_stub v s) evs) \<and>
   stub_step is_email (foldl (stub_step is_email) (onSubmit_stub v s) evs) (Submit out)
     = foldl (stub_step is_email) (onSubmit_stub v s) evs"
proof -
  have "loading (onSubmit_stub v s)"
    by (simp add: onSubmit_stub_def)
  then have "loading (foldl (stub_step is_email) (onSubmit_stub v s) evs)"
    by (rule stub_loading_kept)
  then show ?thesis
    by (simp add: onSubmit_stub_def)
qed

subsection \<open>The authorization header\<close>

text \<open>
  Claim C8. The request carries an \<open>Authorization\<close> header exactly when
  \<open>process.env.ZOHO_OAUTH_TOKEN\<close> is a non-empty string; with no token the headers are
  the content type alone, with a token the header is \<open>Zoho-oauthtoken \<close> followed by the
  token; in every case \<open>onSubmit\<close> issues the request.
\<close>

theorem authorization_header_iff_token:
  "((''Authorization'' \<in> fst ` set (headers (build_request e v))) =
      (\<exists>t. ZOHO_OAUTH_TOKEN e = Some t \<and> t \<noteq> [])) \<and>
   headers (build_request (e\<lparr>ZOHO_OAUTH_TOKEN := None\<rparr>) v) = [(''Content-Type'', ''application/json'')] \<and>
   headers (build_request (e\<lparr>ZOHO_OAUTH_TOKEN := Some (c # t)\<rparr>) v) =
     [(''Content-Type'', ''application/json''), (''Authorization'', ''Zoho-oauthtoken '' @ c # t)] \<and>
   requests (onSubmit e out v s) = requests s @ [build_request e v]"
  by (auto simp: build_request_def request_headers_def onSubmit_def onSubmit_try_def Let_def
        split: option.splits fetch_outcome.splits json_outcome.splits)

end
